theory Spec2Isabelle
  imports Complex_Main
begin

section \<open>Data model of \<open>Live_Trading_Algo.py\<close>\<close>

text \<open>
  Conventions of the embedding.
  \<^item> Python \<open>float\<close> values are real numbers. In the price and probability conversions
    and in \<open>should_trade\<close> every arithmetic operation is rounded to binary64 by \<open>fl64\<close>
    (below), as the interpreter does. In the other functions the operations are the exact
    real ones and \<open>math.exp\<close> is the real exponential: there the results stated do not turn
    on rounding (clamps, comparisons with the code's own operands, sign tests).
    Infinities and NaN are outside the model.
  \<^item> Python \<open>int\<close> values (scores, order ids) are \<open>int\<close>.
  \<^item> \<open>None\<close> is \<open>None\<close> of an option type; a parameter that the code compares with string
    or enum literals and that a caller may leave \<open>None\<close> is an option.
  \<^item> A division whose denominator is not a non-zero literal goes through \<open>py_div\<close>, which
    raises \<open>ZeroDivisionError\<close> as Python does.
  \<^item> The calls to the venue (\<open>place_market_order\<close>, \<open>place_limit_order\<close>,
    \<open>cancel_order\<close>) and the three banners printed by the risk rules are recorded, in
    program order, in a list of effects returned beside the new state. The other
    \<open>print\<close> statements only format values and are left out.
\<close>

datatype Side = BUY | SELL

datatype Ticker = TEAM_A

datatype py_error = ZeroDivisionError

datatype effect =
    PlaceMarketOrder Side Ticker real
  | PlaceLimitOrder "Side option" Ticker real real
  | CancelOrder Ticker int
  | PrintTakeProfit real real
  | PrintStopLoss real real
  | PrintLateGameExit int real real

record strategy =
  home_score :: int
  away_score :: int
  time_remaining :: real
  position :: real
  capital :: real
  cash :: real
  portfolio_value :: real
  max_position_size :: real
  max_portfolio_risk :: real
  kelly_fraction :: real
  min_trade_size :: real
  model_prob :: real
  market_price :: real
  home_momentum :: real
  away_momentum :: real
  recent_events :: "string list"
  active_orders :: "int list"
  last_event_time :: "real option"
  momentum_tau :: real

text \<open>
  The arguments of \<open>on_game_event_update\<close> that the body reads. The player, assist,
  rebound and coordinate arguments are never read and are left out.
\<close>

record game_event =
  event_type :: string
  home_away :: "string option"
  ev_home_score :: int
  ev_away_score :: int
  shot_type :: "string option"
  time_seconds :: "real option"

definition py_div :: "real \<Rightarrow> real \<Rightarrow> py_error + real" where
  "py_div a b = (if b = 0 then Inl ZeroDivisionError else Inr (a / b))"

section \<open>The strategy\<close>

text \<open>\<open>reset_state\<close>, lines 39-65: every attribute is assigned.\<close>

definition reset_state :: "strategy \<Rightarrow> strategy" where
  "reset_state s = s\<lparr>
     home_score := 0,
     away_score := 0,
     time_remaining := 2880.0,
     position := 0,
     capital := 100000.0,
     cash := 100000.0,
     portfolio_value := 100000.0,
     max_position_size := 20000.0,
     max_portfolio_risk := 0.1,
     kelly_fraction := 1.0,
     min_trade_size := 100.0,
     model_prob := 0.55,
     market_price := 55.0,
     home_momentum := 0,
     away_momentum := 0,
     recent_events := [],
     active_orders := [],
     last_event_time := None,
     momentum_tau := 180.0\<rparr>"

text \<open>
  \<open>__init__\<close>, lines 67-69: \<open>reset_state\<close> on a fresh object. The fresh object has no
  attribute yet; the record it starts from is irrelevant, since \<open>reset_state\<close> overwrites
  every field.
\<close>

definition init :: strategy where
  "init = reset_state \<lparr>
     home_score = 0, away_score = 0, time_remaining = 0, position = 0, capital = 0,
     cash = 0, portfolio_value = 0, max_position_size = 0, max_portfolio_risk = 0,
     kelly_fraction = 0, min_trade_size = 0, model_prob = 0, market_price = 0,
     home_momentum = 0, away_momentum = 0, recent_events = [], active_orders = [],
     last_event_time = None, momentum_tau = 0\<rparr>"

text \<open>
  Binary64 rounding. \<open>fl64 x\<close> is the number with a 53-bit significand nearest to \<open>x\<close>,
  ties going to the even significand (the rounding mode of Python floats): \<open>binade x\<close> is
  the exponent \<open>e\<close> with \<open>2 ^ e \<le> |x| < 2 ^ (e + 1)\<close>, \<open>ulp x\<close> the spacing \<open>2 ^ (e - 52)\<close> of
  the binary64 numbers there. The exponent is not bounded: overflow and gradual underflow,
  which need magnitudes above \<open>2 ^ 1023\<close> or below \<open>2 ^ - 1022\<close>, are outside the model.
  A float operation of the source is \<open>fl64\<close> of the exact result; a decimal literal
  denotes \<open>fl64\<close> of its value (50.0 and 100.0 are binary64 numbers, 0.03 is not).
\<close>

definition round_half_even :: "real \<Rightarrow> int" where
  "round_half_even y =
     (let f = \<lfloor>y\<rfloor>; r = y - of_int f
      in if r < 1 / 2 then f else if 1 / 2 < r then f + 1
         else if even f then f else f + 1)"

definition binade :: "real \<Rightarrow> int" where
  "binade x = \<lfloor>log 2 \<bar>x\<bar>\<rfloor>"

definition ulp :: "real \<Rightarrow> real" where
  "ulp x = 2 powi (binade x - 52)"

definition fl_pos :: "real \<Rightarrow> real" where
  "fl_pos x = of_int (round_half_even (x / ulp x)) * ulp x"

definition fl64 :: "real \<Rightarrow> real" where
  "fl64 x = (if x = 0 then 0 else if 0 < x then fl_pos x else - fl_pos (- x))"

text \<open>Lines 71-79.\<close>

definition market_price_to_probability :: "real \<Rightarrow> real" where
  "market_price_to_probability price = fl64 (fl64 (price - 50.0) / 100.0)"

definition probability_to_price :: "real \<Rightarrow> real" where
  "probability_to_price probability = fl64 (50.0 + fl64 (probability * 100.0))"

text \<open>\<open>calculate_true_probability\<close>, lines 81-98.\<close>

definition calculate_true_probability :: "strategy \<Rightarrow> real" where
  "calculate_true_probability s =
     (if time_remaining s \<le> 0 then
        (if home_score s > away_score s then 1.0
         else if home_score s < away_score s then 0.0 else 0.5)
      else
        (let base_prob = 0.55;
             score_diff = real_of_int (home_score s - away_score s);
             time_factor = 1.0 - (time_remaining s / 2880.0);
             score_impact = score_diff * 0.02 * (1.0 + time_factor * 2.0);
             momentum_impact = (home_momentum s - away_momentum s) * 0.005;
             true_prob = base_prob + score_impact + momentum_impact
         in max 0.05 (min 0.95 true_prob)))"

text \<open>\<open>get_event_impact\<close>, lines 100-124.\<close>

definition get_event_impact :: "string \<Rightarrow> string option \<Rightarrow> string option \<Rightarrow> real" where
  "get_event_impact etype side_name shot =
     (let impact =
        (if etype = ''SCORE'' then
           (if shot = Some ''THREE_POINT'' then 4.0
            else if shot = Some ''DUNK'' then 5.0 else 3.0)
         else if etype = ''MISSED'' then - 1.0
         else if etype = ''TURNOVER'' then - 2.0
         else if etype = ''STEAL'' then 2.0
         else if etype = ''BLOCK'' then 1.5
         else if etype = ''FOUL'' then - 1.0
         else 0.0)
      in if side_name = Some ''away'' then - impact else impact)"

text \<open>
  The block that closes the position at market, written out four times in the source
  (lines 137-140, 146-149, 158-161 and 357-360).
\<close>

definition close_position :: "strategy \<Rightarrow> effect list" where
  "close_position s =
     (if position s > 0 then [PlaceMarketOrder SELL TEAM_A \<bar>position s\<bar>]
      else if position s < 0 then [PlaceMarketOrder BUY TEAM_A \<bar>position s\<bar>]
      else [])"

text \<open>\<open>check_risk_management\<close>, lines 126-162.\<close>

definition check_risk_management :: "strategy \<Rightarrow> strategy \<times> effect list" where
  "check_risk_management s =
     (let pnl = portfolio_value s - 100000.0;
          tp_level = kelly_fraction s * 80000.0;
          sl_level = - kelly_fraction s * 50000.0
      in if pnl \<ge> tp_level then
           (reset_state s, PrintTakeProfit pnl tp_level # close_position s)
         else if pnl \<le> sl_level then
           (reset_state s, PrintStopLoss pnl sl_level # close_position s)
         else
           (let score_diff = \<bar>home_score s - away_score s\<bar>
            in if time_remaining s < 600 \<and> score_diff < 5 \<and> pnl > 55000 then
                 (reset_state s,
                  PrintLateGameExit score_diff (time_remaining s) pnl # close_position s)
               else (s, [])))"

text \<open>\<open>should_trade\<close>, lines 165-179.\<close>

definition should_trade :: "real \<Rightarrow> real \<Rightarrow> bool \<times> Side option \<times> real" where
  "should_trade mprob price =
     (let market_prob = market_price_to_probability price;
          confidence_threshold = fl64 0.03
      in if mprob > fl64 (market_prob + confidence_threshold) then
           (True, Some BUY, fl64 (mprob - market_prob))
         else if mprob < fl64 (market_prob - confidence_threshold) then
           (True, Some SELL, fl64 (market_prob - mprob))
         else (False, None, 0.0))"

text \<open>
  \<open>calculate_position_size\<close>, lines 181-225. \<open>upside\<close> and \<open>downside\<close> are the two local
  variables of lines 187-196; the \<open>else\<close> branch takes every side that is not \<open>BUY\<close>.
\<close>

definition upside :: "Side option \<Rightarrow> real \<Rightarrow> real" where
  "upside side price = (if side = Some BUY then 150.0 - price else price - 50.0)"

definition downside :: "Side option \<Rightarrow> real \<Rightarrow> real" where
  "downside side price = (if side = Some BUY then price - 50.0 else 150.0 - price)"

definition calculate_position_size ::
  "strategy \<Rightarrow> real \<Rightarrow> Side option \<Rightarrow> real \<Rightarrow> py_error + real" where
  "calculate_position_size s probability_edge side price =
     (if upside side price \<le> 0 \<or> downside side price \<le> 0 then Inr 0.0
      else
        (let win_prob = max 0.51 (min 0.95 (0.5 + (probability_edge * 2)));
             lose_prob = 1.0 - win_prob
         in case py_div (upside side price) (downside side price) of
              Inl e \<Rightarrow> Inl e
            | Inr b \<Rightarrow>
               (case (if b > 0 then py_div (win_prob * b - lose_prob) b else Inr 0.0) of
                  Inl e \<Rightarrow> Inl e
                | Inr kelly \<Rightarrow>
                   (let kelly' = max 0.0 kelly * kelly_fraction s;
                        position_dollars =
                          min (min (capital s * kelly') (max_position_size s))
                              (if side = Some BUY then cash s else \<bar>position s\<bar> * price);
                        position_dollars' = max (min_trade_size s) position_dollars
                    in case py_div position_dollars' price of
                         Inl e \<Rightarrow> Inl e
                       | Inr shares \<Rightarrow> Inr (max 1.0 shares)))))"

text \<open>\<open>can_afford_trade\<close>, lines 236-240.\<close>

definition can_afford_trade :: "strategy \<Rightarrow> Side option \<Rightarrow> real \<Rightarrow> real \<Rightarrow> bool" where
  "can_afford_trade s side quantity price =
     (if side = Some BUY then quantity * price \<le> cash s \<and> quantity \<le> max_position_size s
      else quantity \<le> max_position_size s)"

text \<open>\<open>update_portfolio_value\<close>, lines 242-245.\<close>

definition update_portfolio_value :: "strategy \<Rightarrow> strategy" where
  "update_portfolio_value s =
     (let position_value = position s * market_price s
      in s\<lparr>portfolio_value := cash s + position_value\<rparr>)"

text \<open>The callbacks of lines 247-272. \<open>on_trade_update\<close> only prints.\<close>

definition on_trade_update :: "strategy \<Rightarrow> Ticker \<Rightarrow> Side \<Rightarrow> real \<Rightarrow> real \<Rightarrow> strategy" where
  "on_trade_update s ticker side quantity price = s"

definition on_orderbook_update ::
  "strategy \<Rightarrow> Ticker \<Rightarrow> Side \<Rightarrow> real \<Rightarrow> real \<Rightarrow> strategy" where
  "on_orderbook_update s ticker side quantity price =
     update_portfolio_value (s\<lparr>market_price := price\<rparr>)"

definition on_account_update ::
  "strategy \<Rightarrow> Ticker \<Rightarrow> Side \<Rightarrow> real \<Rightarrow> real \<Rightarrow> real \<Rightarrow> strategy" where
  "on_account_update s ticker side price quantity capital_remaining =
     (let trade_value = quantity * price;
          s1 = (if side = BUY
                then s\<lparr>position := position s + quantity, cash := cash s - trade_value\<rparr>
                else s\<lparr>position := position s - quantity, cash := cash s + trade_value\<rparr>)
      in update_portfolio_value (s1\<lparr>capital := capital_remaining\<rparr>))"

text \<open>
  \<open>on_game_event_update\<close>, lines 274-364, in the order of the source. The handler is
  cut into its consecutive blocks so that the state between two blocks can be named.
\<close>

text \<open>Lines 282-289: momentum decay for an event that carries a time.\<close>

definition decay_momentum :: "strategy \<Rightarrow> real option \<Rightarrow> py_error + strategy" where
  "decay_momentum s ts =
     (case ts of
        None \<Rightarrow> Inr s
      | Some t \<Rightarrow>
         (let last = (case last_event_time s of None \<Rightarrow> t | Some l \<Rightarrow> l);
              dt = max 0.0 (last - t)
          in case py_div (- dt) (momentum_tau s) of
               Inl e \<Rightarrow> Inl e
             | Inr q \<Rightarrow>
                (let decay = exp q
                 in Inr (s\<lparr>home_momentum := home_momentum s * decay,
                           away_momentum := away_momentum s * decay,
                           last_event_time := Some t\<rparr>))))"

text \<open>Lines 293-296: scores and time.\<close>

definition update_game_state :: "strategy \<Rightarrow> game_event \<Rightarrow> strategy" where
  "update_game_state s ev =
     (let s1 = s\<lparr>home_score := ev_home_score ev, away_score := ev_away_score ev\<rparr>
      in case time_seconds ev of
           None \<Rightarrow> s1
         | Some t \<Rightarrow> s1\<lparr>time_remaining := t\<rparr>)"

text \<open>Lines 299-303: the event's impact goes to one of the two momentum counters.\<close>

definition update_momentum :: "strategy \<Rightarrow> game_event \<Rightarrow> strategy" where
  "update_momentum s ev =
     (let impact = get_event_impact (event_type ev) (home_away ev) (shot_type ev)
      in if home_away ev = Some ''home''
         then s\<lparr>home_momentum := home_momentum s + impact\<rparr>
         else s\<lparr>away_momentum := away_momentum s + impact\<rparr>)"

text \<open>Lines 282-305: the state in which the trading decision is taken.\<close>

definition event_pre_trade :: "strategy \<Rightarrow> game_event \<Rightarrow> py_error + strategy" where
  "event_pre_trade s ev =
     (case decay_momentum s (time_seconds ev) of
        Inl e \<Rightarrow> Inl e
      | Inr s1 \<Rightarrow>
         (let s2 = update_momentum (update_game_state s1 ev) ev
          in Inr (s2\<lparr>model_prob := calculate_true_probability s2\<rparr>)))"

text \<open>
  Lines 312-342: the trading decision. \<open>order_id\<close> is what the venue's
  \<open>place_limit_order\<close> returns to the one call this block can make (the stub of the
  source returns 0); a falsy id is not recorded.
\<close>

definition trading_decision :: "strategy \<Rightarrow> int \<Rightarrow> py_error + strategy \<times> effect list" where
  "trading_decision s order_id =
     (case should_trade (model_prob s) (market_price s) of
        (trade, side, probability_edge) \<Rightarrow>
          if trade then
            (let cancels = map (CancelOrder TEAM_A) (active_orders s);
                 s1 = s\<lparr>active_orders := []\<rparr>
             in case calculate_position_size s1 probability_edge side (market_price s1) of
                  Inl e \<Rightarrow> Inl e
                | Inr quantity \<Rightarrow>
                   if can_afford_trade s1 side quantity (market_price s1) \<and> quantity > 0
                   then
                     (let target_price = market_price s1
                      in Inr (if order_id \<noteq> 0
                              then s1\<lparr>active_orders := active_orders s1 @ [order_id]\<rparr>
                              else s1,
                              cancels @ [PlaceLimitOrder side TEAM_A quantity target_price]))
                   else Inr (s1, cancels))
          else Inr (s, []))"

text \<open>Lines 355-364: the end of the game.\<close>

definition end_of_game :: "strategy \<Rightarrow> string \<Rightarrow> strategy \<times> effect list" where
  "end_of_game s etype =
     (if etype = ''END_GAME'' \<or> time_remaining s < 3
      then (reset_state s, close_position s)
      else (s, []))"

definition on_game_event_update ::
  "strategy \<Rightarrow> game_event \<Rightarrow> int \<Rightarrow> py_error + strategy \<times> effect list" where
  "on_game_event_update s ev order_id =
     (case event_pre_trade s ev of
        Inl e \<Rightarrow> Inl e
      | Inr s1 \<Rightarrow>
         (case trading_decision s1 order_id of
            Inl e \<Rightarrow> Inl e
          | Inr (s2, fx1) \<Rightarrow>
             (case check_risk_management (update_portfolio_value s2) of
                (s3, fx2) \<Rightarrow>
                  (case end_of_game s3 (event_type ev) of
                     (s4, fx3) \<Rightarrow> Inr (s4, fx1 @ fx2 @ fx3)))))"

section \<open>Observers of the effect list\<close>

fun is_cancel :: "effect \<Rightarrow> bool" where
  "is_cancel (CancelOrder t i) = True"
| "is_cancel e = False"

fun is_take_profit :: "effect \<Rightarrow> bool" where
  "is_take_profit (PrintTakeProfit p l) = True"
| "is_take_profit e = False"

definition take_profit_fired :: "strategy \<Rightarrow> bool" where
  "take_profit_fired s = list_ex is_take_profit (snd (check_risk_management s))"

section \<open>The portfolio invariant and sample inputs\<close>

definition portfolio_consistent :: "strategy \<Rightarrow> bool" where
  "portfolio_consistent s = (portfolio_value s = cash s + position s * market_price s)"

text \<open>
  Two events of unknown type for the home side with the score still 0-0; the second one
  carries a later clock reading (2875 s left) than the first (2870 s left).
\<close>

definition ev_first :: game_event where
  "ev_first = \<lparr>event_type = ''REBOUND'', home_away = Some ''home'', ev_home_score = 0,
     ev_away_score = 0, shot_type = None, time_seconds = Some 2870\<rparr>"

definition ev_second :: game_event where
  "ev_second = \<lparr>event_type = ''REBOUND'', home_away = Some ''home'', ev_home_score = 0,
     ev_away_score = 0, shot_type = None, time_seconds = Some 2875\<rparr>"

definition st_first :: strategy where
  "st_first = init\<lparr>time_remaining := 2870, last_event_time := Some 2870\<rparr>"

definition st_second :: strategy where
  "st_second = init\<lparr>time_remaining := 2875, last_event_time := Some 2875\<rparr>"

text \<open>The clock at 0 with the home team ahead 101-99.\<close>

definition st_buzzer :: strategy where
  "st_buzzer = init\<lparr>home_score := 101, away_score := 99, time_remaining := 0\<rparr>"

text \<open>
  A long position of 10 shares marked at 105 with 200000 in cash and two resting orders,
  and the baseline state with the same two resting orders.
\<close>

definition st_winning :: strategy where
  "st_winning = init\<lparr>position := 10, cash := 200000, market_price := 105,
     active_orders := [7, 8]\<rparr>"

definition st_quoting :: strategy where
  "st_quoting = init\<lparr>active_orders := [7, 8]\<rparr>"

text \<open>An event without a clock reading, and a score whose side is spelt \<open>HOME\<close>.\<close>

definition ev_quiet :: game_event where
  "ev_quiet = \<lparr>event_type = ''REBOUND'', home_away = Some ''home'', ev_home_score = 0,
     ev_away_score = 0, shot_type = None, time_seconds = None\<rparr>"

definition ev_typo :: game_event where
  "ev_typo = \<lparr>event_type = ''SCORE'', home_away = Some ''HOME'', ev_home_score = 2,
     ev_away_score = 0, shot_type = None, time_seconds = None\<rparr>"

definition st_typo :: strategy where
  "st_typo = init\<lparr>home_score := 2, away_momentum := 3, model_prob := 0.575\<rparr>"

section \<open>Binary64 rounding\<close>

lemma rhe_bounds: "\<lfloor>y\<rfloor> \<le> round_half_even y \<and> round_half_even y \<le> \<lceil>y\<rceil>"
  unfolding round_half_even_def Let_def
  by (auto simp: ceiling_altdef)

lemma rhe_error: "\<bar>of_int (round_half_even y) - y\<bar> \<le> 1 / 2"
  unfolding round_half_even_def Let_def
  by auto

lemma rhe_int [simp]: "round_half_even (of_int k) = k"
  by (simp add: round_half_even_def)

lemma rhe_mono: "a \<le> b \<Longrightarrow> round_half_even a \<le> round_half_even b"
proof -
  assume ab: "a \<le> b"
  then have fl: "\<lfloor>a\<rfloor> \<le> \<lfloor>b\<rfloor>" by (rule floor_mono)
  show ?thesis
  proof (cases "\<lfloor>a\<rfloor> = \<lfloor>b\<rfloor>")
    case True
    with ab show ?thesis
      unfolding round_half_even_def Let_def by auto
  next
    case False
    with fl have "\<lfloor>a\<rfloor> + 1 \<le> \<lfloor>b\<rfloor>" by simp
    moreover have "round_half_even a \<le> \<lfloor>a\<rfloor> + 1"
      unfolding round_half_even_def Let_def by auto
    moreover have "\<lfloor>b\<rfloor> \<le> round_half_even b" using rhe_bounds by blast
    ultimately show ?thesis by linarith
  qed
qed

lemma powr_powi: "2 powr real_of_int k = (2::real) powi k"
  by (rule powr_real_of_int') simp_all

lemma powr_powi_Suc: "2 powr (real_of_int k + 1) = (2::real) powi (k + 1)"
  using powr_powi [of "k + 1"] by simp

lemma binade_bounds:
  assumes "0 < x"
  shows "2 powi binade x \<le> x" "x < 2 powi (binade x + 1)"
proof -
  have "\<lfloor>log 2 x\<rfloor> = binade x" using assms by (simp add: binade_def)
  then have "2 powr (binade x) \<le> x \<and> x < 2 powr (real_of_int (binade x) + 1)"
    using floor_log_eq_powr_iff [of x 2 "binade x"] assms by simp
  then show "2 powi binade x \<le> x" "x < 2 powi (binade x + 1)"
    by (simp_all only: powr_powi powr_powi_Suc)
qed

lemma binade_eq:
  assumes "0 < x" "2 powi e \<le> x" "x < 2 powi (e + 1)"
  shows "binade x = e"
proof -
  have "2 powr e \<le> x \<and> x < 2 powr (real_of_int e + 1)"
    using assms by (simp only: powr_powi powr_powi_Suc)
  then have "\<lfloor>log 2 x\<rfloor> = e"
    using floor_log_eq_powr_iff [of x 2 e] assms by simp
  then show ?thesis using assms by (simp add: binade_def)
qed


lemma ulp_alt: "ulp x = 2 powi binade x / 2 ^ 52"
proof -
  have "(2::real) powi (binade x - 52) = 2 powi binade x / 2 powi 52"
    by (rule power_int_diff) simp
  then show ?thesis by (simp add: ulp_def)
qed

lemma ulp_pos: "0 < ulp x"
  by (simp add: ulp_def)

lemma powi_Suc: "(2::real) powi (e + 1) = 2 * 2 powi e"
  by (simp add: power_int_add)

lemma scaled_bounds:
  assumes "0 < x"
  shows "2 ^ 52 \<le> x / ulp x" "x / ulp x < 2 ^ 53"
proof -
  let ?P = "(2::real) powi binade x"
  have P: "0 < ?P" by simp
  have lo: "?P \<le> x" and hi: "x < 2 * ?P"
    using binade_bounds [OF assms] by (simp_all add: powi_Suc)
  have u: "x / ulp x = x * 2 ^ 52 / ?P" by (simp add: ulp_alt)
  from lo P have "2 ^ 52 * ?P \<le> x * 2 ^ 52" by simp
  with P show "2 ^ 52 \<le> x / ulp x" unfolding u by (simp add: le_divide_eq)
  from hi P have "x * 2 ^ 52 < 2 ^ 53 * ?P" by simp
  with P show "x / ulp x < 2 ^ 53" unfolding u by (simp add: divide_less_eq)
qed

lemma rhe_scaled:
  assumes "0 < x"
  shows "2 ^ 52 \<le> round_half_even (x / ulp x)" "round_half_even (x / ulp x) \<le> 2 ^ 53"
proof -
  have "(2 ^ 52 :: int) \<le> \<lfloor>x / ulp x\<rfloor>"
    using scaled_bounds(1) [OF assms] by (simp add: le_floor_iff)
  with rhe_bounds [of "x / ulp x"] show "2 ^ 52 \<le> round_half_even (x / ulp x)" by linarith
  have "\<lceil>x / ulp x\<rceil> \<le> (2 ^ 53 :: int)"
    using scaled_bounds(2) [OF assms] by (simp add: ceiling_le_iff)
  with rhe_bounds [of "x / ulp x"] show "round_half_even (x / ulp x) \<le> 2 ^ 53" by linarith
qed

lemma fl_pos_bounds:
  assumes "0 < x"
  shows "2 powi binade x \<le> fl_pos x" "fl_pos x \<le> 2 powi (binade x + 1)"
proof -
  let ?P = "(2::real) powi binade x"
  let ?k = "round_half_even (x / ulp x)"
  have P: "0 < ?P" by simp
  have v: "fl_pos x = of_int ?k * ?P / 2 ^ 52" by (simp add: fl_pos_def ulp_alt)
  have "(2 ^ 52 :: real) \<le> of_int ?k"
    using rhe_scaled(1) [OF assms] by (metis of_int_le_iff of_int_numeral of_int_power)
  then have "2 ^ 52 * ?P \<le> of_int ?k * ?P" using P by simp
  then show "?P \<le> fl_pos x" unfolding v by simp
  have "of_int ?k \<le> (2 ^ 53 :: real)"
    using rhe_scaled(2) [OF assms] by (metis of_int_le_iff of_int_numeral of_int_power)
  then have "of_int ?k * ?P \<le> 2 ^ 53 * ?P" using P by simp
  then show "fl_pos x \<le> 2 powi (binade x + 1)" unfolding v by (simp add: powi_Suc)
qed

lemma fl_pos_error:
  assumes "0 < x"
  shows "\<bar>fl_pos x - x\<bar> \<le> x / 2 ^ 53"
proof -
  let ?u = "ulp x"
  have u: "0 < ?u" by (rule ulp_pos)
  have "fl_pos x - x = (of_int (round_half_even (x / ?u)) - x / ?u) * ?u"
    using u by (simp add: fl_pos_def algebra_simps)
  then have "\<bar>fl_pos x - x\<bar> = \<bar>of_int (round_half_even (x / ?u)) - x / ?u\<bar> * ?u"
    using u by (simp add: abs_mult)
  also have "\<dots> \<le> 1 / 2 * ?u"
    using rhe_error [of "x / ?u"] u by (intro mult_right_mono) simp_all
  also have "\<dots> \<le> x / 2 ^ 53"
    using binade_bounds(1) [OF assms] by (simp add: ulp_alt)
  finally show ?thesis .
qed

lemma fl64_error: "\<bar>fl64 x - x\<bar> \<le> \<bar>x\<bar> / 2 ^ 53"
proof (cases "0 < x")
  case True
  then show ?thesis using fl_pos_error [of x] by (simp add: fl64_def)
next
  case False
  show ?thesis
  proof (cases "x = 0")
    case True then show ?thesis by (simp add: fl64_def)
  next
    case False
    with \<open>\<not> 0 < x\<close> have n: "0 < - x" by simp
    from fl_pos_error [OF n] n show ?thesis by (simp add: fl64_def)
  qed
qed

lemma binade_mono: "0 < x \<Longrightarrow> x \<le> y \<Longrightarrow> binade x \<le> binade y"
  unfolding binade_def by (intro floor_mono) simp

lemma fl_pos_mono:
  assumes "0 < x" "x \<le> y"
  shows "fl_pos x \<le> fl_pos y"
proof (cases "binade x = binade y")
  case True
  then have u: "ulp x = ulp y" by (simp add: ulp_def)
  have "x / ulp y \<le> y / ulp y" using assms ulp_pos [of y] by (simp add: divide_right_mono)
  from rhe_mono [OF this] ulp_pos [of y] show ?thesis
    by (simp add: fl_pos_def u mult_right_mono)
next
  case False
  with binade_mono [OF assms] have "binade x + 1 \<le> binade y" by simp
  then have "(2::real) powi (binade x + 1) \<le> 2 powi binade y"
    by (intro power_int_increasing) simp_all
  moreover have "0 < y" using assms by simp
  ultimately show ?thesis
    using fl_pos_bounds(2) [OF assms(1)] fl_pos_bounds(1) [of y] by linarith
qed

lemma fl_pos_pos:
  assumes "0 < x"
  shows "0 < fl_pos x"
proof -
  have "(0::real) < 2 powi binade x" by simp
  with fl_pos_bounds(1) [OF assms] show ?thesis by linarith
qed

lemma fl64_mono: "x \<le> y \<Longrightarrow> fl64 x \<le> fl64 y"
  using fl_pos_mono [of x y] fl_pos_mono [of "- y" "- x"] fl_pos_pos [of x] fl_pos_pos [of y]
    fl_pos_pos [of "- x"] fl_pos_pos [of "- y"]
  by (auto simp: fl64_def not_less) 

lemma fl64_zero [simp]: "fl64 0 = 0"
  by (simp add: fl64_def)


lemma fl64_eval_pos:
  assumes "0 < x" "2 powi e \<le> x" "x < 2 powi (e + 1)"
  shows "fl64 x = of_int (round_half_even (x / 2 powi (e - 52))) * 2 powi (e - 52)"
  using assms(1) binade_eq [OF assms] by (simp add: fl64_def fl_pos_def ulp_def)

lemma fl64_minus: "fl64 (- x) = - fl64 x"
  by (simp add: fl64_def)

lemma fl_pos_idem:
  assumes "0 < x"
  shows "fl_pos (fl_pos x) = fl_pos x"
proof -
  let ?P = "(2::real) powi binade x"
  let ?k = "round_half_even (x / ulp x)"
  let ?v = "fl_pos x"
  have P: "0 < ?P" by simp
  have v: "?v = of_int ?k * ulp x" by (simp add: fl_pos_def)
  have vpos: "0 < ?v" by (rule fl_pos_pos [OF assms])
  show ?thesis
  proof (cases "?v < 2 powi (binade x + 1)")
    case True
    from binade_eq [OF vpos fl_pos_bounds(1) [OF assms] True]
    have uv: "ulp ?v = ulp x" by (simp add: ulp_def)
    have "?v / ulp x = of_int ?k" using ulp_pos [of x] by (simp add: v)
    then have q: "?v / ulp ?v = of_int ?k" by (simp only: uv)
    have "fl_pos ?v = of_int (round_half_even (of_int ?k)) * ulp ?v"
      unfolding fl_pos_def [of ?v] by (simp only: q)
    also have "\<dots> = of_int ?k * ulp x" by (simp only: rhe_int uv)
    also have "\<dots> = ?v" by (simp only: v)
    finally show ?thesis .
  next
    case False
    with fl_pos_bounds(2) [OF assms] have e: "?v = 2 powi (binade x + 1)" by simp
    have pp: "(0::real) < 2 powi (binade x + 1)" by simp
    have ge: "2 powi (binade x + 1) \<le> ?v" unfolding e by (rule order_refl)
    have "?v < 2 * 2 powi (binade x + 1)" unfolding e using pp by linarith
    then have lt: "?v < 2 powi (binade x + 1 + 1)"
      by (simp only: powi_Suc [of "binade x + 1"])
    from binade_eq [OF vpos ge lt] have b: "binade ?v = binade x + 1" .
    have "binade x + 1 - 52 = binade x - 52 + 1" by simp
    then have u: "ulp ?v = 2 * ulp x"
      unfolding ulp_def b by (simp only: powi_Suc [of "binade x - 52"])
    have ux: "ulp x = ?P / 2 ^ 52" by (rule ulp_alt)
    have vP: "?v = 2 * ?P" unfolding e by (rule powi_Suc)
    have "?v / ulp ?v = ?v / (2 * ulp x)" by (simp only: u)
    also have "\<dots> = 2 * ?P / (2 * (?P / 2 ^ 52))" by (simp only: vP ux)
    also have "\<dots> = of_int (2 ^ 52)" using P by simp
    finally have q: "?v / ulp ?v = of_int (2 ^ 52)" .
    have "fl_pos ?v = of_int (round_half_even (of_int (2 ^ 52))) * ulp ?v"
      unfolding fl_pos_def [of ?v] by (simp only: q)
    also have "\<dots> = of_int (2 ^ 52) * (2 * ulp x)" by (simp only: rhe_int u)
    also have "\<dots> = 2 * ?P" unfolding ux by simp
    also have "\<dots> = ?v" by (simp only: vP)
    finally show ?thesis .
  qed
qed

lemma fl64_idem: "fl64 (fl64 x) = fl64 x"
  using fl_pos_idem [of x] fl_pos_idem [of "- x"] fl_pos_pos [of x] fl_pos_pos [of "- x"]
  by (auto simp: fl64_def)

lemma fl64_coarse:
  assumes "0 \<le> a" "a \<le> x" "x \<le> b"
  shows "a * 0.999 \<le> fl64 x" "fl64 x \<le> b * 1.001"
proof -
  have x: "0 \<le> x" using assms by simp
  have "x / 2 ^ 53 \<le> x / 1000" using x by (intro divide_left_mono) simp_all
  with fl64_error [of x] x have e: "\<bar>fl64 x - x\<bar> \<le> x / 1000" by simp
  from e have "fl64 x - x \<le> x / 1000 \<and> - (fl64 x - x) \<le> x / 1000"
    by (simp only: abs_le_iff)
  then have lo: "x - x / 1000 \<le> fl64 x" and hi: "fl64 x \<le> x + x / 1000"
    by linarith+
  have "a * 0.999 = a - a / 1000" "b * 1.001 = b + b / 1000" by simp_all
  with lo hi assms show "a * 0.999 \<le> fl64 x" "fl64 x \<le> b * 1.001" by linarith+
qed

text \<open>The conversion of a price near a known value, and the threshold.\<close>

lemma mp_bounds:
  assumes "0 \<le> a" "a \<le> p - 50" "p - 50 \<le> b"
  shows "a * 0.0099 \<le> market_price_to_probability p"
    "market_price_to_probability p \<le> b * 0.0101"
proof -
  from fl64_coarse [OF assms]
  have d: "a * 0.999 \<le> fl64 (p - 50)" "fl64 (p - 50) \<le> b * 1.001" by simp_all
  have a': "0 \<le> a * 0.999 / 100" using assms(1) by simp
  from d have q: "a * 0.999 / 100 \<le> fl64 (p - 50) / 100" "fl64 (p - 50) / 100 \<le> b * 1.001 / 100"
    by simp_all
  from fl64_coarse [OF a' q]
  have "a * 0.999 / 100 * 0.999 \<le> fl64 (fl64 (p - 50) / 100)"
    "fl64 (fl64 (p - 50) / 100) \<le> b * 1.001 / 100 * 1.001" by simp_all
  moreover have "a * 0.0099 \<le> a * 0.999 / 100 * 0.999" using assms(1) by simp
  moreover have "0 \<le> b" using assms by simp
  then have "b * 1.001 / 100 * 1.001 \<le> b * 0.0101" by simp
  ultimately show "a * 0.0099 \<le> market_price_to_probability p"
    "market_price_to_probability p \<le> b * 0.0101"
    by (simp_all add: market_price_to_probability_def)
qed

lemma threshold_bounds: "0.0299 \<le> fl64 0.03" "fl64 0.03 \<le> 0.0301"
  using fl64_coarse [of "0.03" "0.03" "0.03"] by simp_all

section \<open>Basic facts\<close>

lemma reset_state_const: "reset_state s = reset_state s'"
  by (cases s, cases s') (simp add: reset_state_def)

lemma py_div_Inr: "b \<noteq> 0 \<Longrightarrow> py_div a b = Inr (a / b)"
  by (simp add: py_div_def)

lemma guard_iff:
  "(upside side p \<le> 0 \<or> downside side p \<le> 0) = (p \<le> 50 \<or> 150 \<le> p)"
  by (auto simp: upside_def downside_def)

lemma kelly_step:
  "b \<noteq> 0 \<Longrightarrow> \<exists>k. (if b > 0 then py_div x b else Inr 0.0) = Inr k"
  by (simp add: py_div_def)

lemma cps_extreme:
  "p \<le> 50 \<or> 150 \<le> p \<Longrightarrow> calculate_position_size s e side p = Inr 0"
  by (simp add: calculate_position_size_def guard_iff)

lemma cps_tradeable:
  assumes "50 < p" "p < 150"
  shows "\<exists>q. calculate_position_size s e side p = Inr q \<and> 1 \<le> q"
proof -
  have g: "\<not> (upside side p \<le> 0 \<or> downside side p \<le> 0)"
    using assms by (simp add: guard_iff)
  have d: "downside side p \<noteq> 0" and u: "upside side p \<noteq> 0"
    using g by auto
  have p0: "p \<noteq> 0" using assms by simp
  obtain k where k: "(if upside side p / downside side p > 0
          then py_div (max 0.51 (min 0.95 (0.5 + (e * 2))) * (upside side p / downside side p)
                  - (1.0 - max 0.51 (min 0.95 (0.5 + (e * 2))))) (upside side p / downside side p)
          else Inr 0.0) = Inr k"
    using kelly_step [of "upside side p / downside side p"] d u by auto
  show ?thesis
    unfolding calculate_position_size_def Let_def
    by (simp only: g if_False py_div_Inr [OF d] py_div_Inr [OF p0] sum.case k) simp
qed

lemma cps_total: "\<exists>q. calculate_position_size s e side p = Inr q"
proof (cases "p \<le> 50 \<or> 150 \<le> p")
  case True
  then show ?thesis using cps_extreme [of p s e side] by simp
next
  case False
  then have "50 < p" "p < 150" by auto
  from cps_tradeable [OF this, of s e side] show ?thesis by blast
qed

text \<open>The baseline state: every field as \<open>reset_state\<close> leaves it.\<close>

lemma reset_state_init: "reset_state s = init"
  unfolding init_def by (rule reset_state_const)

lemma init_sel:
  "home_score init = 0" "away_score init = 0" "time_remaining init = 2880"
  "position init = 0" "capital init = 100000" "cash init = 100000"
  "portfolio_value init = 100000" "max_position_size init = 20000"
  "max_portfolio_risk init = 0.1" "kelly_fraction init = 1" "min_trade_size init = 100"
  "model_prob init = 0.55" "market_price init = 55" "home_momentum init = 0"
  "away_momentum init = 0" "recent_events init = []" "active_orders init = []"
  "last_event_time init = None" "momentum_tau init = 180"
  by (simp_all add: init_def reset_state_def)

section \<open>The blocks of the event handler\<close>

lemma clamp_bounds:
  "(0.05::real) \<le> max 0.05 (min 0.95 x) \<and> max 0.05 (min 0.95 x) \<le> 0.95"
  by (simp add: max_def min_def)

lemma ctp_range:
  assumes "0 < time_remaining s"
  shows "0.05 \<le> calculate_true_probability s \<and> calculate_true_probability s \<le> 0.95"
proof -
  from assms have n: "\<not> time_remaining s \<le> 0" by simp
  have "\<exists>x. calculate_true_probability s = max 0.05 (min 0.95 x)"
    unfolding calculate_true_probability_def Let_def
    by (simp only: n if_False) blast
  then obtain x where x: "calculate_true_probability s = max 0.05 (min 0.95 x)" by blast
  show ?thesis unfolding x by (rule clamp_bounds)
qed

lemma ctp_terminal:
  "time_remaining s \<le> 0 \<Longrightarrow>
     calculate_true_probability s =
       (if home_score s > away_score s then 1 else if home_score s < away_score s then 0 else 0.5)"
  by (simp add: calculate_true_probability_def)

lemma ctp_model_prob_update [simp]:
  "calculate_true_probability (s\<lparr>model_prob := x\<rparr>) = calculate_true_probability s"
  by (simp add: calculate_true_probability_def)

lemma crm_cases:
  "fst (check_risk_management s) = s \<and> snd (check_risk_management s) = []
   \<or> fst (check_risk_management s) = reset_state s"
  by (simp add: check_risk_management_def Let_def)

lemma crm_fired:
  "snd (check_risk_management s) \<noteq> [] \<Longrightarrow> fst (check_risk_management s) = reset_state s"
  by (simp add: check_risk_management_def Let_def split: if_splits)

lemma crm_quiet:
  "portfolio_value s = 100000 \<Longrightarrow> kelly_fraction s = 1 \<Longrightarrow>
     check_risk_management s = (s, [])"
  by (simp add: check_risk_management_def Let_def)

lemma eog_cases:
  "end_of_game s et = (if et = ''END_GAME'' \<or> time_remaining s < 3
     then (reset_state s, close_position s) else (s, []))"
  by (simp add: end_of_game_def)

lemma eog_quiet:
  "et \<noteq> ''END_GAME'' \<Longrightarrow> 3 \<le> time_remaining s \<Longrightarrow> end_of_game s et = (s, [])"
  by (simp add: end_of_game_def)

lemma td_frame:
  "trading_decision s oid = Inr (s', fx) \<Longrightarrow> \<exists>ao. s' = s\<lparr>active_orders := ao\<rparr>"
  apply (simp add: trading_decision_def Let_def split: prod.splits if_splits sum.splits)
  apply auto
  apply (rule exI[of _ "active_orders s"], simp)
  done

lemma td_total: "\<exists>r. trading_decision s oid = Inr r"
proof -
  obtain tr sd ed where st: "should_trade (model_prob s) (market_price s) = (tr, sd, ed)"
    by (cases "should_trade (model_prob s) (market_price s)") auto
  obtain q where
    q: "calculate_position_size (s\<lparr>active_orders := []\<rparr>) ed sd (market_price s) = Inr q"
    using cps_total by blast
  show ?thesis
    by (simp add: trading_decision_def st q Let_def)
qed

lemma cps_baseline:
  assumes "capital s = 100000" "cash s = 100000" "kelly_fraction s = 1"
    "max_position_size s = 20000" "min_trade_size s = 100" "0.225 \<le> e"
  shows "calculate_position_size s e (Some BUY) 55 = Inr (4000 / 11)"
proof -
  have w: "max 0.51 (min 0.95 (0.5 + (e * 2))) = (0.95::real)"
    using assms(6) by (simp add: max_def min_def)
  show ?thesis
    unfolding calculate_position_size_def Let_def w
    by (simp add: assms(1-5) upside_def downside_def py_div_def)
qed

lemma should_trade_buy_55:
  assumes "0.3 \<le> m"
  shows "\<exists>e. should_trade m 55 = (True, Some BUY, e) \<and> 0.225 \<le> e"
proof -
  let ?mk = "market_price_to_probability 55"
  from mp_bounds [of 5 55 5] have mk: "0.0495 \<le> ?mk" "?mk \<le> 0.0505" by simp_all
  have s: "0.0794 \<le> ?mk + fl64 0.03" "?mk + fl64 0.03 \<le> 0.0806"
    using mk threshold_bounds by simp_all
  from fl64_coarse(2) [OF _ s] have "fl64 (?mk + fl64 0.03) \<le> 0.0806 * 1.001" by simp
  with assms have gt: "m > fl64 (?mk + fl64 0.03)" by simp
  have d: "0.2495 \<le> m - ?mk" using mk assms by simp
  from fl64_coarse(1) [OF _ d order_refl] have e: "0.225 \<le> fl64 (m - ?mk)" by simp
  have "should_trade m 55 = (True, Some BUY, fl64 (m - ?mk))"
    by (simp only: should_trade_def Let_def gt if_True)
  with e show ?thesis by blast
qed

lemma should_trade_hold_105: "should_trade 0.55 105 = (False, None, 0)"
proof -
  let ?mk = "market_price_to_probability 105"
  from mp_bounds [of 55 105 55] have mk: "0.5445 \<le> ?mk" "?mk \<le> 0.5555" by simp_all
  have up: "0.5744 \<le> ?mk + fl64 0.03" using mk threshold_bounds by simp
  from fl64_coarse(1) [OF _ up order_refl] have "0.5744 * 0.999 \<le> fl64 (?mk + fl64 0.03)"
    by simp
  then have a: "\<not> 0.55 > fl64 (?mk + fl64 0.03)" by simp
  have dn: "0.5144 \<le> ?mk - fl64 0.03" "?mk - fl64 0.03 \<le> 0.5256"
    using mk threshold_bounds by simp_all
  from fl64_coarse(2) [OF _ dn] have "fl64 (?mk - fl64 0.03) \<le> 0.5256 * 1.001" by simp
  then have b: "\<not> 0.55 < fl64 (?mk - fl64 0.03)" by simp
  show ?thesis
    by (simp only: should_trade_def Let_def a b if_False) simp
qed

lemma td_baseline:
  assumes "market_price s = 55" "0.3 \<le> model_prob s"
    "capital s = 100000" "cash s = 100000" "kelly_fraction s = 1"
    "max_position_size s = 20000" "min_trade_size s = 100"
  shows "trading_decision s oid =
     Inr (s\<lparr>active_orders := (if oid \<noteq> 0 then [oid] else [])\<rparr>,
          map (CancelOrder TEAM_A) (active_orders s)
            @ [PlaceLimitOrder (Some BUY) TEAM_A (4000 / 11) 55])"
proof -
  from should_trade_buy_55 [OF assms(2)] obtain e where
    st: "should_trade (model_prob s) 55 = (True, Some BUY, e)" and e: "0.225 \<le> e" by blast
  have q: "calculate_position_size (s\<lparr>active_orders := []\<rparr>) e (Some BUY) 55 = Inr (4000 / 11)"
    using assms e by (intro cps_baseline) simp_all
  show ?thesis
    by (simp add: trading_decision_def assms(1,4,6) st q can_afford_trade_def Let_def)
qed

lemma pc_reset: "portfolio_consistent (reset_state s)"
  by (simp add: portfolio_consistent_def reset_state_def)

lemma pc_upd: "portfolio_consistent (update_portfolio_value s)"
  by (simp add: portfolio_consistent_def update_portfolio_value_def)

lemma model_prob_reset: "model_prob (reset_state s) = 0.55"
  by (simp add: reset_state_def)

lemma active_orders_reset: "active_orders (reset_state s) = []"
  by (simp add: reset_state_def)

lemma decay_frame:
  "decay_momentum s ts = Inr s1 \<Longrightarrow>
     \<exists>h a l. s1 = s\<lparr>home_momentum := h, away_momentum := a, last_event_time := l\<rparr>"
  apply (cases ts)
   apply (simp add: decay_momentum_def)
   apply (rule exI[of _ "home_momentum s"], rule exI[of _ "away_momentum s"],
      rule exI[of _ "last_event_time s"], simp)
  apply (auto simp: decay_momentum_def Let_def split: sum.splits)
  done

lemma pre_trade_model_prob:
  "event_pre_trade s ev = Inr s1 \<Longrightarrow> model_prob s1 = calculate_true_probability s1"
  by (auto simp: event_pre_trade_def Let_def split: sum.splits)

lemma pre_trade_time:
  "event_pre_trade s ev = Inr s1 \<Longrightarrow>
     time_remaining s1 = (case time_seconds ev of None \<Rightarrow> time_remaining s | Some t \<Rightarrow> t)"
  by (auto simp: event_pre_trade_def update_momentum_def update_game_state_def Let_def
      split: sum.splits option.splits dest!: decay_frame)

lemma pre_trade_frame:
  "event_pre_trade s ev = Inr s1 \<Longrightarrow>
     active_orders s1 = active_orders s \<and> market_price s1 = market_price s"
  by (auto simp: event_pre_trade_def update_momentum_def update_game_state_def Let_def
      split: sum.splits option.splits dest!: decay_frame)

lemma pre_trade_momentum:
  "event_pre_trade s ev = Inr s2 \<Longrightarrow>
     \<exists>s1. decay_momentum s (time_seconds ev) = Inr s1
       \<and> home_momentum s2 = home_momentum (update_momentum s1 ev)
       \<and> away_momentum s2 = away_momentum (update_momentum s1 ev)"
  by (auto simp: event_pre_trade_def update_momentum_def update_game_state_def Let_def
      split: sum.splits option.splits)

lemma pre_trade_total:
  "momentum_tau s \<noteq> 0 \<or> time_seconds ev = None \<Longrightarrow> \<exists>s1. event_pre_trade s ev = Inr s1"
  by (cases "time_seconds ev")
    (auto simp: event_pre_trade_def decay_momentum_def py_div_def Let_def)

section \<open>The event handler as a whole\<close>

lemma ogeu_unfold:
  "on_game_event_update s ev oid = Inr (s', fx) \<Longrightarrow>
     \<exists>s1 s2 fx1 s3 fx2 fx3.
       event_pre_trade s ev = Inr s1 \<and> trading_decision s1 oid = Inr (s2, fx1)
       \<and> check_risk_management (update_portfolio_value s2) = (s3, fx2)
       \<and> end_of_game s3 (event_type ev) = (s', fx3) \<and> fx = fx1 @ fx2 @ fx3"
  by (auto simp: on_game_event_update_def split: sum.splits prod.splits)

text \<open>
  The handler returns unless the decay divides by a zero \<open>momentum_tau\<close>; \<open>reset_state\<close>
  sets it to 180.
\<close>

lemma ogeu_total:
  assumes "momentum_tau s \<noteq> 0 \<or> time_seconds ev = None"
  shows "\<exists>r. on_game_event_update s ev oid = Inr r"
proof -
  from pre_trade_total [OF assms] obtain s1 where p: "event_pre_trade s ev = Inr s1" by blast
  from td_total [of s1 oid] obtain s2 fx1 where t: "trading_decision s1 oid = Inr (s2, fx1)"
    by (cases "trading_decision s1 oid") auto
  show ?thesis
    by (simp add: on_game_event_update_def p t split: prod.splits)
qed

text \<open>
  A completed call ends in the baseline state, or in the state of the trading decision
  with only the order list and the portfolio value touched and at least 3 s on the clock.
\<close>

lemma ogeu_result:
  assumes "on_game_event_update s ev oid = Inr (s', fx)"
  shows "s' = reset_state s \<or>
     (\<exists>s1 ao. event_pre_trade s ev = Inr s1
        \<and> s' = update_portfolio_value (s1\<lparr>active_orders := ao\<rparr>)
        \<and> \<not> time_remaining s1 < 3)"
proof -
  from ogeu_unfold [OF assms] obtain s1 s2 fx1 s3 fx2 fx3 where
    p: "event_pre_trade s ev = Inr s1" and t: "trading_decision s1 oid = Inr (s2, fx1)"
    and c: "check_risk_management (update_portfolio_value s2) = (s3, fx2)"
    and e: "end_of_game s3 (event_type ev) = (s', fx3)" by blast
  from td_frame [OF t] obtain ao where s2: "s2 = s1\<lparr>active_orders := ao\<rparr>" by blast
  from crm_cases [of "update_portfolio_value s2"] c
  have s3: "s3 = update_portfolio_value s2 \<or> s3 = reset_state s"
    using reset_state_const [of "update_portfolio_value s2" s] by auto
  from e have s': "s' = (if event_type ev = ''END_GAME'' \<or> time_remaining s3 < 3
      then reset_state s else s3)"
    using reset_state_const [of s3 s] by (auto simp: eog_cases split: if_splits)
  show ?thesis
  proof (cases "s' = reset_state s")
    case True then show ?thesis by simp
  next
    case False
    with s' s3 have "s' = update_portfolio_value s2" "\<not> time_remaining s3 < 3" "s3 = s'"
      by (auto split: if_splits)
    moreover have "time_remaining (update_portfolio_value s2) = time_remaining s1"
      by (simp add: s2 update_portfolio_value_def Let_def)
    ultimately show ?thesis using p s2 by auto
  qed
qed

lemma ogeu_momentum:
  assumes "on_game_event_update s ev oid = Inr (s', fx)" and "s' \<noteq> reset_state s"
  shows "\<exists>s1. decay_momentum s (time_seconds ev) = Inr s1
       \<and> home_momentum s' = home_momentum (update_momentum s1 ev)
       \<and> away_momentum s' = away_momentum (update_momentum s1 ev)"
proof -
  from ogeu_result [OF assms(1)] assms(2) obtain s2 ao where
    p: "event_pre_trade s ev = Inr s2"
    and s': "s' = update_portfolio_value (s2\<lparr>active_orders := ao\<rparr>)" by blast
  have "home_momentum s' = home_momentum s2" "away_momentum s' = away_momentum s2"
    by (simp_all add: s' update_portfolio_value_def Let_def)
  with pre_trade_momentum [OF p] show ?thesis by simp
qed

section \<open>Price and probability\<close>

text \<open>
  The binary64 number nearest to 100.08 is \<open>7042503917300613 / 2 ^ 46\<close>. The four
  operations of the round trip, each rounded.
\<close>

lemma price_10008_binary64:
  "fl64 (7042503917300613 / 2 ^ 46) = 7042503917300613 / 2 ^ 46"
  by (subst fl64_eval_pos [where e = 6]) (simp_all add: round_half_even_def)

lemma round_trip_10008_sub:
  "fl64 (7042503917300613 / 2 ^ 46 - 50.0) = 3524066708417413 / 2 ^ 46"
  by (subst fl64_eval_pos [where e = 5]) (simp_all add: round_half_even_def)

lemma round_trip_10008_div:
  "fl64 (3524066708417413 / 2 ^ 46 / 100.0) = 4510805386774289 / 2 ^ 53"
  by (subst fl64_eval_pos [where e = "- 1"]) (simp_all add: round_half_even_def)

lemma round_trip_10008_mul:
  "fl64 (4510805386774289 / 2 ^ 53 * 100.0) = 7048133416834827 / 2 ^ 47"
  by (subst fl64_eval_pos [where e = 5]) (simp_all add: round_half_even_def)

lemma round_trip_10008_add:
  "fl64 (50.0 + 7048133416834827 / 2 ^ 47) = 3521251958650307 / 2 ^ 45"
  by (subst fl64_eval_pos [where e = 6]) (simp_all add: round_half_even_def)

lemma round_trip_10008:
  "probability_to_price (market_price_to_probability (7042503917300613 / 2 ^ 46))
     = 3521251958650307 / 2 ^ 45"
  by (simp only: probability_to_price_def market_price_to_probability_def
      round_trip_10008_sub round_trip_10008_div round_trip_10008_mul round_trip_10008_add)

text \<open>
  C6, as the code has it. Neither conversion clamps, and the round trip
  \<open>probability_to_price (market_price_to_probability p)\<close> returns \<open>p\<close> up to the rounding
  of its four binary64 operations: for every \<open>p\<close> the result differs from \<open>p\<close> by at most
  \<open>(|p| + 50) / 2 ^ 49\<close>. It need not be equal to \<open>p\<close>.
\<close>

theorem round_trip_error_bound:
  "\<bar>probability_to_price (market_price_to_probability p) - p\<bar> \<le> (\<bar>p\<bar> + 50) / 2 ^ 49"
proof -
  define a where "a = p - 50"
  define d where "d = fl64 a"
  define q where "q = fl64 (d / 100)"
  define r where "r = fl64 (q * 100)"
  define s where "s = fl64 (50 + r)"
  define k :: real where "k = 1 / 2 ^ 53"
  have k: "0 < k" "k \<le> 1 / 1000" by (simp_all add: k_def)
  have e1: "\<bar>d - a\<bar> \<le> \<bar>a\<bar> * k" using fl64_error [of a] by (simp add: d_def k_def)
  have e2: "\<bar>q - d / 100\<bar> \<le> \<bar>d / 100\<bar> * k"
    using fl64_error [of "d / 100"] by (simp add: q_def k_def)
  have e3: "\<bar>r - q * 100\<bar> \<le> \<bar>q * 100\<bar> * k"
    using fl64_error [of "q * 100"] by (simp add: r_def k_def)
  have e4: "\<bar>s - (50 + r)\<bar> \<le> \<bar>50 + r\<bar> * k"
    using fl64_error [of "50 + r"] by (simp add: s_def k_def)
  have ak1: "\<bar>a\<bar> * k \<le> \<bar>a\<bar>" using k by (simp add: mult_left_le)
  have d1: "\<bar>d\<bar> \<le> 2 * \<bar>a\<bar>" using e1 ak1 by linarith
  have dk: "\<bar>d\<bar> * k \<le> 2 * (\<bar>a\<bar> * k)" using d1 k by (simp add: mult_right_mono)
  have "\<bar>q * 100 - d\<bar> = 100 * \<bar>q - d / 100\<bar>" by (simp add: abs_if)
  also have "\<dots> \<le> 100 * (\<bar>d / 100\<bar> * k)" using e2 by simp
  also have "\<dots> = \<bar>d\<bar> * k" by simp
  finally have q1: "\<bar>q * 100 - d\<bar> \<le> 2 * (\<bar>a\<bar> * k)" using dk by linarith
  have q2: "\<bar>q * 100\<bar> \<le> 4 * \<bar>a\<bar>" using q1 d1 ak1 by linarith
  have "\<bar>q * 100\<bar> * k \<le> 4 * \<bar>a\<bar> * k" using q2 k by (simp add: mult_right_mono)
  with e3 have r1: "\<bar>r - q * 100\<bar> \<le> 4 * (\<bar>a\<bar> * k)" by simp
  have ra: "\<bar>r - a\<bar> \<le> 7 * (\<bar>a\<bar> * k)" using r1 q1 e1 by linarith
  have r2: "\<bar>50 + r\<bar> \<le> 50 + 8 * \<bar>a\<bar>" using ra ak1 by linarith
  have "\<bar>50 + r\<bar> * k \<le> (50 + 8 * \<bar>a\<bar>) * k" using r2 k by (simp add: mult_right_mono)
  with e4 have s1: "\<bar>s - (50 + r)\<bar> \<le> 50 * k + 8 * (\<bar>a\<bar> * k)" by (simp add: algebra_simps)
  have sp: "\<bar>s - p\<bar> \<le> 50 * k + 15 * (\<bar>a\<bar> * k)" using s1 ra by (simp add: a_def)
  have "\<bar>a\<bar> \<le> \<bar>p\<bar> + 50" by (simp add: a_def)
  then have "\<bar>a\<bar> * k \<le> (\<bar>p\<bar> + 50) * k" using k by (simp add: mult_right_mono)
  moreover have "50 * k \<le> (\<bar>p\<bar> + 50) * k" using k by (simp add: mult_right_mono)
  ultimately have "\<bar>s - p\<bar> \<le> 16 * ((\<bar>p\<bar> + 50) * k)" using sp by linarith
  moreover have "16 * ((\<bar>p\<bar> + 50) * k) = (\<bar>p\<bar> + 50) / 2 ^ 49" by (simp add: k_def)
  moreover have "probability_to_price (market_price_to_probability p) = s"
    by (simp add: probability_to_price_def market_price_to_probability_def
        s_def r_def q_def d_def a_def)
  ultimately show ?thesis by simp
qed

text \<open>
  C6 as stated fails: the price 100.08 (the binary64 number nearest to it) comes back from
  the round trip as the next binary64 number above it, 100.08000000000001.
\<close>

theorem round_trip_inexact_counterexample:
  "fl64 (7042503917300613 / 2 ^ 46) = 7042503917300613 / 2 ^ 46
   \<and> probability_to_price (market_price_to_probability (7042503917300613 / 2 ^ 46))
       = 3521251958650307 / 2 ^ 45
   \<and> probability_to_price (market_price_to_probability (7042503917300613 / 2 ^ 46))
       \<noteq> 7042503917300613 / 2 ^ 46"
proof (intro conjI)
  show "fl64 (7042503917300613 / 2 ^ 46) = 7042503917300613 / 2 ^ 46"
    by (rule price_10008_binary64)
  show "probability_to_price (market_price_to_probability (7042503917300613 / 2 ^ 46))
       = 3521251958650307 / 2 ^ 45"
    by (rule round_trip_10008)
  have "(3521251958650307 / 2 ^ 45 :: real) \<noteq> 7042503917300613 / 2 ^ 46" by simp
  then show "probability_to_price (market_price_to_probability (7042503917300613 / 2 ^ 46))
       \<noteq> 7042503917300613 / 2 ^ 46"
    unfolding round_trip_10008 .
qed

section \<open>Trade decision\<close>

lemma threshold_nonneg: "0 \<le> fl64 0.03"
  using fl64_mono [of 0 "0.03"] by simp

lemma market_prob_binary64:
  "fl64 (market_price_to_probability p) = market_price_to_probability p"
  by (simp add: market_price_to_probability_def fl64_idem)

lemma market_prob_le_up:
  "market_price_to_probability p \<le> fl64 (market_price_to_probability p + fl64 0.03)"
  using fl64_mono [of "market_price_to_probability p" "market_price_to_probability p + fl64 0.03"]
    threshold_nonneg by (simp add: market_prob_binary64)

lemma market_prob_ge_down:
  "fl64 (market_price_to_probability p - fl64 0.03) \<le> market_price_to_probability p"
  using fl64_mono [of "market_price_to_probability p - fl64 0.03" "market_price_to_probability p"]
    threshold_nonneg by (simp add: market_prob_binary64)

lemma fl64_nonneg: "0 \<le> x \<Longrightarrow> 0 \<le> fl64 x"
  using fl64_mono [of 0 x] by simp

text \<open>
  The two inputs on the threshold. 0.33 against a price of 80: the sum \<open>0.3 + 0.03\<close>
  rounds down to 0.32999999999999996, below 0.33. 0.05 against a price of 52: the sum
  \<open>0.02 + 0.03\<close> rounds to 0.05 itself.
\<close>

lemma threshold_binary64: "fl64 0.03 = 1080863910568919 / 2 ^ 55"
  by (subst fl64_eval_pos [where e = "- 6"]) (simp_all add: round_half_even_def)

lemma market_prob_80: "market_price_to_probability 80 = 5404319552844595 / 2 ^ 54"
proof -
  have a: "fl64 (80 - 50.0) = 30"
    by (subst fl64_eval_pos [where e = 4]) (simp_all add: round_half_even_def)
  have b: "fl64 (30 / 100.0) = 5404319552844595 / 2 ^ 54"
    by (subst fl64_eval_pos [where e = "- 2"]) (simp_all add: round_half_even_def)
  show ?thesis by (simp only: market_price_to_probability_def a b)
qed

lemma should_trade_033_80:
  "should_trade (5944751508129055 / 2 ^ 54) 80 = (True, Some BUY, 135107988821115 / 2 ^ 52)"
proof -
  have up: "fl64 (5404319552844595 / 2 ^ 54 + 1080863910568919 / 2 ^ 55)
      = 2972375754064527 / 2 ^ 53"
    by (subst fl64_eval_pos [where e = "- 2"]) (simp_all add: round_half_even_def)
  have edge: "fl64 (5944751508129055 / 2 ^ 54 - 5404319552844595 / 2 ^ 54)
      = 135107988821115 / 2 ^ 52"
    by (subst fl64_eval_pos [where e = "- 6"]) (simp_all add: round_half_even_def)
  have "fl64 (market_price_to_probability 80 + fl64 0.03) = 2972375754064527 / 2 ^ 53"
    by (simp only: market_prob_80 threshold_binary64 up)
  then have gt: "5944751508129055 / 2 ^ 54 > fl64 (market_price_to_probability 80 + fl64 0.03)"
    by simp
  have "should_trade (5944751508129055 / 2 ^ 54) 80 =
      (True, Some BUY, fl64 (5944751508129055 / 2 ^ 54 - market_price_to_probability 80))"
    by (simp only: should_trade_def Let_def gt if_True)
  then show ?thesis by (simp only: market_prob_80 edge)
qed

lemma market_prob_52: "market_price_to_probability 52 = 5764607523034235 / 2 ^ 58"
proof -
  have a: "fl64 (52 - 50.0) = 2"
    by (subst fl64_eval_pos [where e = 1]) (simp_all add: round_half_even_def)
  have b: "fl64 (2 / 100.0) = 5764607523034235 / 2 ^ 58"
    by (subst fl64_eval_pos [where e = "- 6"]) (simp_all add: round_half_even_def)
  show ?thesis by (simp only: market_price_to_probability_def a b)
qed

lemma should_trade_005_52:
  "should_trade (3602879701896397 / 2 ^ 56) 52 = (False, None, 0)"
proof -
  have up: "fl64 (5764607523034235 / 2 ^ 58 + 1080863910568919 / 2 ^ 55)
      = 3602879701896397 / 2 ^ 56"
    by (subst fl64_eval_pos [where e = "- 5"]) (simp_all add: round_half_even_def)
  have "fl64 (1080863910568919 / 2 ^ 55 - 5764607523034235 / 2 ^ 58)
      = 2882303761517117 / 2 ^ 58"
    by (subst fl64_eval_pos [where e = "- 7"]) (simp_all add: round_half_even_def)
  moreover have "5764607523034235 / 2 ^ 58 - 1080863910568919 / 2 ^ 55
      = - (1080863910568919 / 2 ^ 55 - 5764607523034235 / 2 ^ 58 :: real)" by simp
  ultimately have dn: "fl64 (5764607523034235 / 2 ^ 58 - 1080863910568919 / 2 ^ 55)
      = - (2882303761517117 / 2 ^ 58)"
    by (simp only: fl64_minus)
  have "fl64 (market_price_to_probability 52 + fl64 0.03) = 3602879701896397 / 2 ^ 56"
    by (simp only: market_prob_52 threshold_binary64 up)
  then have a: "\<not> 3602879701896397 / 2 ^ 56 > fl64 (market_price_to_probability 52 + fl64 0.03)"
    by simp
  have "fl64 (market_price_to_probability 52 - fl64 0.03) = - (2882303761517117 / 2 ^ 58)"
    by (simp only: market_prob_52 threshold_binary64 dn)
  then have b: "\<not> 3602879701896397 / 2 ^ 56 < fl64 (market_price_to_probability 52 - fl64 0.03)"
    by simp
  show ?thesis
    by (simp only: should_trade_def Let_def a b if_False) simp
qed

text \<open>
  C5. With \<open>market_prob\<close> the binary64 value the code computes for
  \<open>(market_price - 50) / 100\<close>, the threshold the binary64 number written 0.03, and the
  sums and differences rounded as the code rounds them, \<open>should_trade\<close> signals BUY with
  edge \<open>model_prob - market_prob\<close> when \<open>model_prob > market_prob + 0.03\<close>, SELL with edge
  \<open>market_prob - model_prob\<close> when \<open>model_prob < market_prob - 0.03\<close>, and no trade with
  edge 0 otherwise, for every model probability and market price; the edge of a signalled
  trade is never negative.
\<close>

theorem should_trade_binary64_cases:
  "market_price_to_probability p = fl64 (fl64 (p - 50) / 100)
   \<and> should_trade m p =
     (if m > fl64 (market_price_to_probability p + fl64 0.03)
      then (True, Some BUY, fl64 (m - market_price_to_probability p))
      else if m < fl64 (market_price_to_probability p - fl64 0.03)
      then (True, Some SELL, fl64 (market_price_to_probability p - m))
      else (False, None, 0))
   \<and> (fst (should_trade m p) \<longrightarrow> 0 \<le> snd (snd (should_trade m p)))"
proof -
  have conv: "market_price_to_probability p = fl64 (fl64 (p - 50) / 100)"
    by (simp add: market_price_to_probability_def)
  have cases: "should_trade m p =
     (if m > fl64 (market_price_to_probability p + fl64 0.03)
      then (True, Some BUY, fl64 (m - market_price_to_probability p))
      else if m < fl64 (market_price_to_probability p - fl64 0.03)
      then (True, Some SELL, fl64 (market_price_to_probability p - m))
      else (False, None, 0))"
    by (simp add: should_trade_def Let_def)
  have edge: "0 \<le> snd (snd (should_trade m p))" if "fst (should_trade m p)"
  proof (cases "m > fl64 (market_price_to_probability p + fl64 0.03)")
    case True
    with market_prob_le_up [of p] have "0 \<le> m - market_price_to_probability p" by linarith
    from fl64_nonneg [OF this] True show ?thesis by (simp add: cases)
  next
    case False
    with that have lt: "m < fl64 (market_price_to_probability p - fl64 0.03)"
      by (simp add: cases split: if_splits)
    with market_prob_ge_down [of p] have "0 \<le> market_price_to_probability p - m" by linarith
    from fl64_nonneg [OF this] False lt show ?thesis by (simp add: cases)
  qed
  from conv cases edge show ?thesis by blast
qed

theorem should_trade_binary64_cases_witness:
  "should_trade (5944751508129055 / 2 ^ 54) 80 = (True, Some BUY, 135107988821115 / 2 ^ 52)
   \<and> fst (should_trade (5944751508129055 / 2 ^ 54) 80)
   \<and> 0 \<le> snd (snd (should_trade (5944751508129055 / 2 ^ 54) 80))
   \<and> should_trade (3602879701896397 / 2 ^ 56) 52 = (False, None, 0)"
  using should_trade_binary64_cases [of 80 "5944751508129055 / 2 ^ 54"]
    should_trade_033_80 should_trade_005_52
  by simp

section \<open>Position sizing\<close>

text \<open>
  C4. For every state, edge, side and market price, \<open>calculate_position_size\<close> returns a
  number of shares that is never negative; the early return (upside or downside not
  positive) is taken exactly when the price is at most 50 or at least 150, and gives
  exactly 0; every other price gives at least 1 share.
\<close>

theorem calculate_position_size_range:
  "\<exists>q. calculate_position_size s e side p = Inr q \<and> 0 \<le> q
     \<and> ((upside side p \<le> 0 \<or> downside side p \<le> 0) = (p \<le> 50 \<or> 150 \<le> p))
     \<and> (if p \<le> 50 \<or> 150 \<le> p then q = 0 else 1 \<le> q)"
proof (cases "p \<le> 50 \<or> 150 \<le> p")
  case True
  then show ?thesis
    using cps_extreme [of p s e side] by (simp add: guard_iff)
next
  case False
  then have "50 < p" "p < 150" by auto
  from cps_tradeable [OF this, of s e side] obtain q
    where "calculate_position_size s e side p = Inr q" "1 \<le> q" by blast
  with False show ?thesis by (simp add: guard_iff)
qed

text \<open>
  C9. \<open>calculate_position_size\<close> is total and raises no \<open>ZeroDivisionError\<close>: it returns a
  value for every state, edge, side and price. Past the early return the downside is
  positive and the price is above 50, so the denominators of the odds, of the Kelly
  fraction and of the share count are all non-zero.
\<close>

theorem calculate_position_size_no_zero_division:
  "(\<exists>q. calculate_position_size s e side p = Inr q)
   \<and> (\<not> (upside side p \<le> 0 \<or> downside side p \<le> 0) \<longrightarrow>
        0 < downside side p \<and> 0 < upside side p / downside side p \<and> 50 < p \<and> 0 < p)"
proof -
  have "\<exists>q. calculate_position_size s e side p = Inr q"
  proof (cases "p \<le> 50 \<or> 150 \<le> p")
    case True
    then show ?thesis using cps_extreme [of p s e side] by simp
  next
    case False
    then have "50 < p" "p < 150" by auto
    from cps_tradeable [OF this, of s e side] show ?thesis by blast
  qed
  moreover have "\<not> (upside side p \<le> 0 \<or> downside side p \<le> 0) \<longrightarrow>
        0 < downside side p \<and> 0 < upside side p / downside side p \<and> 50 < p \<and> 0 < p"
    by (auto simp: upside_def downside_def)
  ultimately show ?thesis by blast
qed

theorem calculate_position_size_no_zero_division_witness:
  "(\<exists>q. calculate_position_size init 0.5 (Some BUY) 55 = Inr q)
   \<and> \<not> (upside (Some BUY) 55 \<le> 0 \<or> downside (Some BUY) 55 \<le> 0)
   \<and> 0 < downside (Some BUY) 55 \<and> (50::real) < 55"
  using calculate_position_size_no_zero_division [of init "0.5" "Some BUY" 55]
  by (simp add: upside_def downside_def)

section \<open>Sample runs of the event handler\<close>

lemma pre_first: "event_pre_trade init ev_first = Inr st_first"
  by (simp add: event_pre_trade_def decay_momentum_def py_div_def update_game_state_def
      update_momentum_def get_event_impact_def calculate_true_probability_def
      ev_first_def st_first_def init_sel Let_def)

lemma first_event:
  "on_game_event_update init ev_first 0 =
     Inr (st_first, [PlaceLimitOrder (Some BUY) TEAM_A (4000 / 11) 55])"
proof -
  have t: "trading_decision st_first 0 =
      Inr (st_first, [PlaceLimitOrder (Some BUY) TEAM_A (4000 / 11) 55])"
    using td_baseline [of st_first 0] by (simp add: st_first_def init_sel)
  have u: "update_portfolio_value st_first = st_first"
    by (simp add: update_portfolio_value_def st_first_def init_sel Let_def)
  have c: "check_risk_management st_first = (st_first, [])"
    by (rule crm_quiet) (simp_all add: st_first_def init_sel)
  have e: "end_of_game st_first (event_type ev_first) = (st_first, [])"
    by (rule eog_quiet) (simp_all add: st_first_def ev_first_def init_sel)
  show ?thesis
    by (simp add: on_game_event_update_def pre_first t u c e)
qed

lemma pre_second: "event_pre_trade st_first ev_second = Inr st_second"
  by (simp add: event_pre_trade_def decay_momentum_def py_div_def update_game_state_def
      update_momentum_def get_event_impact_def calculate_true_probability_def
      ev_second_def st_first_def st_second_def init_sel Let_def)

lemma second_event:
  "on_game_event_update st_first ev_second 0 =
     Inr (st_second, [PlaceLimitOrder (Some BUY) TEAM_A (4000 / 11) 55])"
proof -
  have t: "trading_decision st_second 0 =
      Inr (st_second, [PlaceLimitOrder (Some BUY) TEAM_A (4000 / 11) 55])"
    using td_baseline [of st_second 0] by (simp add: st_second_def init_sel)
  have u: "update_portfolio_value st_second = st_second"
    by (simp add: update_portfolio_value_def st_second_def init_sel Let_def)
  have c: "check_risk_management st_second = (st_second, [])"
    by (rule crm_quiet) (simp_all add: st_second_def init_sel)
  have e: "end_of_game st_second (event_type ev_second) = (st_second, [])"
    by (rule eog_quiet) (simp_all add: st_second_def ev_second_def init_sel)
  show ?thesis
    by (simp add: on_game_event_update_def pre_second t u c e)
qed

lemma st_second_not_reset: "st_second \<noteq> reset_state st_first"
proof
  assume "st_second = reset_state st_first"
  then have "last_event_time st_second = last_event_time (reset_state st_first)" by simp
  then show False by (simp add: st_second_def reset_state_def)
qed

lemma st_first_not_reset: "st_first \<noteq> reset_state init"
proof
  assume "st_first = reset_state init"
  then have "last_event_time st_first = last_event_time (reset_state init)" by simp
  then show False by (simp add: st_first_def reset_state_def)
qed

lemma crm_winning:
  "check_risk_management (update_portfolio_value st_winning) =
     (init, [PrintTakeProfit 101050 80000, PlaceMarketOrder SELL TEAM_A 10])"
  by (simp add: check_risk_management_def update_portfolio_value_def close_position_def
      st_winning_def init_sel reset_state_init Let_def)

lemma winning_event:
  "on_game_event_update st_winning ev_quiet 0 =
     Inr (init, [PrintTakeProfit 101050 80000, PlaceMarketOrder SELL TEAM_A 10])"
proof -
  have p: "event_pre_trade st_winning ev_quiet = Inr st_winning"
    by (simp add: event_pre_trade_def decay_momentum_def update_game_state_def
        update_momentum_def get_event_impact_def calculate_true_probability_def
        ev_quiet_def st_winning_def init_sel Let_def)
  have mp: "model_prob st_winning = 0.55" "market_price st_winning = 105"
    by (simp_all add: st_winning_def init_sel)
  have st: "should_trade (model_prob st_winning) (market_price st_winning) = (False, None, 0)"
    unfolding mp by (rule should_trade_hold_105)
  have t: "trading_decision st_winning 0 = Inr (st_winning, [])"
    by (simp add: trading_decision_def st)
  have e: "end_of_game init (event_type ev_quiet) = (init, [])"
    by (rule eog_quiet) (simp_all add: ev_quiet_def init_sel)
  show ?thesis
    by (simp add: on_game_event_update_def p t crm_winning e)
qed

lemma quoting_event:
  "on_game_event_update st_quoting ev_quiet 9 =
     Inr (init\<lparr>active_orders := [9]\<rparr>,
          [CancelOrder TEAM_A 7, CancelOrder TEAM_A 8,
           PlaceLimitOrder (Some BUY) TEAM_A (4000 / 11) 55])"
proof -
  have p: "event_pre_trade st_quoting ev_quiet = Inr st_quoting"
    by (simp add: event_pre_trade_def decay_momentum_def update_game_state_def
        update_momentum_def get_event_impact_def calculate_true_probability_def
        ev_quiet_def st_quoting_def init_sel Let_def)
  have t: "trading_decision st_quoting 9 =
      Inr (init\<lparr>active_orders := [9]\<rparr>,
           [CancelOrder TEAM_A 7, CancelOrder TEAM_A 8,
            PlaceLimitOrder (Some BUY) TEAM_A (4000 / 11) 55])"
    using td_baseline [of st_quoting 9] by (simp add: st_quoting_def init_sel)
  have u: "update_portfolio_value (init\<lparr>active_orders := [9]\<rparr>) = init\<lparr>active_orders := [9]\<rparr>"
    by (simp add: update_portfolio_value_def init_sel Let_def)
  have c: "check_risk_management (init\<lparr>active_orders := [9]\<rparr>)
      = (init\<lparr>active_orders := [9]\<rparr>, [])"
    by (rule crm_quiet) (simp_all add: init_sel)
  have e: "end_of_game (init\<lparr>active_orders := [9]\<rparr>) (event_type ev_quiet)
      = (init\<lparr>active_orders := [9]\<rparr>, [])"
    by (rule eog_quiet) (simp_all add: ev_quiet_def init_sel)
  show ?thesis
    by (simp add: on_game_event_update_def p t u c e)
qed

lemma typo_event:
  "on_game_event_update init ev_typo 0 =
     Inr (st_typo, [PlaceLimitOrder (Some BUY) TEAM_A (4000 / 11) 55])"
proof -
  have p: "event_pre_trade init ev_typo = Inr st_typo"
    by (simp add: event_pre_trade_def decay_momentum_def update_game_state_def
        update_momentum_def get_event_impact_def calculate_true_probability_def
        ev_typo_def st_typo_def init_sel Let_def)
  have t: "trading_decision st_typo 0 =
      Inr (st_typo, [PlaceLimitOrder (Some BUY) TEAM_A (4000 / 11) 55])"
    using td_baseline [of st_typo 0] by (simp add: st_typo_def init_sel)
  have u: "update_portfolio_value st_typo = st_typo"
    by (simp add: update_portfolio_value_def st_typo_def init_sel Let_def)
  have c: "check_risk_management st_typo = (st_typo, [])"
    by (rule crm_quiet) (simp_all add: st_typo_def init_sel)
  have e: "end_of_game st_typo (event_type ev_typo) = (st_typo, [])"
    by (rule eog_quiet) (simp_all add: st_typo_def ev_typo_def init_sel)
  show ?thesis
    by (simp add: on_game_event_update_def p t u c e)
qed

lemma st_typo_not_reset: "st_typo \<noteq> reset_state init"
proof
  assume "st_typo = reset_state init"
  then have "home_score st_typo = home_score (reset_state init)" by simp
  then show False by (simp add: st_typo_def reset_state_def)
qed

section \<open>The probability model\<close>

text \<open>
  C1, as the code has it. While time remains (\<open>time_remaining > 0\<close>)
  \<open>calculate_true_probability\<close> lies in the closed interval from 0.05 to 0.95; once the
  clock is at 0 or below it returns exactly 1, 0 or 0.5 by comparing the scores, with no
  clamp. Still, \<open>model_prob\<close> lies between 0.05 and 0.95 after every completed call of
  \<open>on_game_event_update\<close>, from any state: a call that computed a terminal value ends
  with a reset, which stores 0.55.
\<close>

theorem model_prob_range:
  "(0 < time_remaining s \<longrightarrow>
      0.05 \<le> calculate_true_probability s \<and> calculate_true_probability s \<le> 0.95)
   \<and> (time_remaining s \<le> 0 \<longrightarrow>
      calculate_true_probability s =
        (if home_score s > away_score s then 1 else if home_score s < away_score s then 0 else 0.5))
   \<and> (on_game_event_update s ev oid = Inr (s', fx) \<longrightarrow>
      0.05 \<le> model_prob s' \<and> model_prob s' \<le> 0.95)"
proof -
  have live: "0 < time_remaining s \<longrightarrow>
      0.05 \<le> calculate_true_probability s \<and> calculate_true_probability s \<le> 0.95"
    using ctp_range [of s] by blast
  have terminal: "time_remaining s \<le> 0 \<longrightarrow>
      calculate_true_probability s =
        (if home_score s > away_score s then 1 else if home_score s < away_score s then 0 else 0.5)"
    using ctp_terminal [of s] by blast
  have after: "0.05 \<le> model_prob s' \<and> model_prob s' \<le> 0.95"
    if a: "on_game_event_update s ev oid = Inr (s', fx)"
    using ogeu_result [OF a]
  proof
    assume "s' = reset_state s"
    then show ?thesis by (simp add: model_prob_reset)
  next
    assume "\<exists>s1 ao. event_pre_trade s ev = Inr s1
        \<and> s' = update_portfolio_value (s1\<lparr>active_orders := ao\<rparr>)
        \<and> \<not> time_remaining s1 < 3"
    then obtain s1 ao where p: "event_pre_trade s ev = Inr s1"
      and s': "s' = update_portfolio_value (s1\<lparr>active_orders := ao\<rparr>)"
      and t: "\<not> time_remaining s1 < 3" by blast
    from t have "0 < time_remaining s1" by simp
    from ctp_range [OF this] pre_trade_model_prob [OF p]
    have "0.05 \<le> model_prob s1 \<and> model_prob s1 \<le> 0.95" by simp
    moreover have "model_prob s' = model_prob s1"
      by (simp add: s' update_portfolio_value_def Let_def)
    ultimately show ?thesis by simp
  qed
  from live terminal after show ?thesis by blast
qed

theorem model_prob_range_witness:
  "0 < time_remaining init
   \<and> 0.05 \<le> calculate_true_probability init \<and> calculate_true_probability init \<le> 0.95
   \<and> time_remaining st_buzzer \<le> 0 \<and> calculate_true_probability st_buzzer = 1
   \<and> on_game_event_update init ev_first 0 =
       Inr (st_first, [PlaceLimitOrder (Some BUY) TEAM_A (4000 / 11) 55])
   \<and> 0.05 \<le> model_prob st_first \<and> model_prob st_first \<le> 0.95"
  using model_prob_range [where s = init and ev = ev_first and oid = 0 and s' = st_first
      and fx = "[PlaceLimitOrder (Some BUY) TEAM_A (4000 / 11) 55]"]
    model_prob_range [where s = st_buzzer and ev = ev_first and oid = 0 and s' = st_first
      and fx = "[PlaceLimitOrder (Some BUY) TEAM_A (4000 / 11) 55]"]
    first_event
  by (simp add: st_first_def st_buzzer_def init_sel)

text \<open>
  C1 as stated fails: with the clock at 0 and the home team ahead 101-99 the function
  returns 1, above 0.95.
\<close>

theorem true_probability_terminal_counterexample:
  "calculate_true_probability st_buzzer = 1
   \<and> \<not> calculate_true_probability st_buzzer \<le> 0.95"
  by (simp add: calculate_true_probability_def st_buzzer_def init_sel)

section \<open>The game clock\<close>

text \<open>
  C2, as the code has it. A completed call of \<open>on_game_event_update\<close> that does not end
  in the baseline state leaves \<open>time_remaining\<close> equal to the event's \<open>time_seconds\<close>
  when it carries one, and unchanged when it carries none. The handler does not compare
  the new reading with the old one.
\<close>

theorem time_remaining_follows_event:
  assumes "on_game_event_update s ev oid = Inr (s', fx)" and "s' \<noteq> reset_state s"
  shows "time_remaining s' = (case time_seconds ev of None \<Rightarrow> time_remaining s | Some t \<Rightarrow> t)"
proof -
  from ogeu_result [OF assms(1)] assms(2) obtain s1 ao where
    p: "event_pre_trade s ev = Inr s1"
    and s': "s' = update_portfolio_value (s1\<lparr>active_orders := ao\<rparr>)" by blast
  have "time_remaining s' = time_remaining s1"
    by (simp add: s' update_portfolio_value_def Let_def)
  with pre_trade_time [OF p] show ?thesis by simp
qed

theorem time_remaining_follows_event_witness:
  "on_game_event_update st_first ev_second 0 =
     Inr (st_second, [PlaceLimitOrder (Some BUY) TEAM_A (4000 / 11) 55])
   \<and> st_second \<noteq> reset_state st_first
   \<and> time_remaining st_second = 2875"
  using time_remaining_follows_event [OF second_event st_second_not_reset]
    second_event st_second_not_reset
  by (simp add: ev_second_def)

text \<open>
  C2 as stated fails: from the start of a game, an event with 2870 s left followed by an
  event with 2875 s left, neither of which resets the state, takes \<open>time_remaining\<close> from
  2870 up to 2875.
\<close>

theorem time_remaining_increase_counterexample:
  "on_game_event_update init ev_first 0 =
     Inr (st_first, [PlaceLimitOrder (Some BUY) TEAM_A (4000 / 11) 55])
   \<and> on_game_event_update st_first ev_second 0 =
     Inr (st_second, [PlaceLimitOrder (Some BUY) TEAM_A (4000 / 11) 55])
   \<and> st_first \<noteq> reset_state init \<and> st_second \<noteq> reset_state st_first
   \<and> time_seconds ev_second = Some 2875
   \<and> time_remaining st_first = 2870 \<and> time_remaining st_second = 2875
   \<and> \<not> time_remaining st_second \<le> time_remaining st_first"
  using first_event second_event st_first_not_reset st_second_not_reset
  by (simp add: st_first_def st_second_def ev_second_def)

section \<open>Risk management\<close>

lemma close_position_no_banner: "\<not> list_ex is_take_profit (close_position s)"
  by (simp add: close_position_def)

lemma tp_iff:
  "take_profit_fired s = (portfolio_value s - 100000 \<ge> kelly_fraction s * 80000)"
  by (simp add: take_profit_fired_def check_risk_management_def Let_def
      close_position_no_banner)

text \<open>
  C3. \<open>check_risk_management\<close> takes the take-profit branch (it prints the take-profit
  banner) exactly when \<open>portfolio_value - 100000 \<ge> kelly_fraction * 80000\<close>. With
  \<open>kelly_fraction = 1\<close>, whatever the other fields: a portfolio value of 180001 fires it,
  179999 does not, and 180000 (a profit of exactly 80000) fires it.
\<close>

theorem take_profit_boundary:
  "take_profit_fired s = (portfolio_value s - 100000 \<ge> kelly_fraction s * 80000)
   \<and> take_profit_fired (s\<lparr>kelly_fraction := 1.0, portfolio_value := 180001\<rparr>)
   \<and> \<not> take_profit_fired (s\<lparr>kelly_fraction := 1.0, portfolio_value := 179999\<rparr>)
   \<and> take_profit_fired (s\<lparr>kelly_fraction := 1.0, portfolio_value := 180000\<rparr>)"
  by (simp add: tp_iff)

section \<open>The portfolio value\<close>

text \<open>
  C7. After \<open>reset_state\<close>, after \<open>on_orderbook_update\<close>, after \<open>on_account_update\<close> and
  after every completed \<open>on_game_event_update\<close>, from any state and for any arguments,
  \<open>portfolio_value = cash + position * market_price\<close>.
\<close>

theorem portfolio_value_never_stale:
  "portfolio_consistent (reset_state s)
   \<and> portfolio_consistent (on_orderbook_update s ticker side quantity price)
   \<and> portfolio_consistent (on_account_update s ticker side price quantity capital_remaining)
   \<and> (on_game_event_update s ev oid = Inr (s', fx) \<longrightarrow> portfolio_consistent s')"
proof -
  have "portfolio_consistent s'" if a: "on_game_event_update s ev oid = Inr (s', fx)"
    using ogeu_result [OF a] by (auto simp: pc_reset pc_upd)
  then show ?thesis
    by (simp add: pc_reset pc_upd on_orderbook_update_def on_account_update_def Let_def)
qed

theorem portfolio_value_never_stale_witness:
  "on_game_event_update init ev_first 0 =
       Inr (st_first, [PlaceLimitOrder (Some BUY) TEAM_A (4000 / 11) 55])
   \<and> portfolio_consistent st_first
   \<and> portfolio_value st_first = cash st_first + position st_first * market_price st_first"
  using portfolio_value_never_stale [where s = init and ev = ev_first and oid = 0
      and s' = st_first and fx = "[PlaceLimitOrder (Some BUY) TEAM_A (4000 / 11) 55]"]
    first_event
  by (simp add: portfolio_consistent_def)

section \<open>Resting orders at a reset\<close>

lemma filter_cancel_map: "filter is_cancel (map (CancelOrder t) xs) = map (CancelOrder t) xs"
  by (induction xs) simp_all

lemma close_position_no_cancel: "filter is_cancel (close_position s) = []"
  by (simp add: close_position_def)

lemma crm_no_cancel: "filter is_cancel (snd (check_risk_management s)) = []"
  by (simp add: check_risk_management_def Let_def close_position_no_cancel)

lemma eog_no_cancel: "filter is_cancel (snd (end_of_game s et)) = []"
  by (simp add: end_of_game_def close_position_no_cancel)

lemma td_cancels:
  "trading_decision s oid = Inr (s', fx) \<Longrightarrow>
     filter is_cancel fx =
       (if fst (should_trade (model_prob s) (market_price s))
        then map (CancelOrder TEAM_A) (active_orders s) else [])"
  by (auto simp: trading_decision_def Let_def filter_cancel_map
      split: prod.splits if_splits sum.splits)

lemma ogeu_cancels:
  assumes "on_game_event_update s ev oid = Inr (s', fx)"
  shows "\<exists>s1. event_pre_trade s ev = Inr s1 \<and>
     filter is_cancel fx =
       (if fst (should_trade (model_prob s1) (market_price s1))
        then map (CancelOrder TEAM_A) (active_orders s) else [])"
proof -
  from ogeu_unfold [OF assms] obtain s1 s2 fx1 s3 fx2 fx3 where
    p: "event_pre_trade s ev = Inr s1" and t: "trading_decision s1 oid = Inr (s2, fx1)"
    and c: "check_risk_management (update_portfolio_value s2) = (s3, fx2)"
    and e: "end_of_game s3 (event_type ev) = (s', fx3)" and fx: "fx = fx1 @ fx2 @ fx3"
    by blast
  have "filter is_cancel fx2 = []"
    using crm_no_cancel [of "update_portfolio_value s2"] c by simp
  moreover have "filter is_cancel fx3 = []"
    using eog_no_cancel [of s3 "event_type ev"] e by simp
  ultimately have "filter is_cancel fx = filter is_cancel fx1" by (simp add: fx)
  with td_cancels [OF t] pre_trade_frame [OF p] p show ?thesis by simp
qed

text \<open>
  C8. Neither reset path cancels a resting order. \<open>check_risk_management\<close> calls
  \<open>cancel_order\<close> in no case, and when one of its rules fires the state is reset, with
  \<open>active_orders\<close> empty; the end-of-game block calls \<open>cancel_order\<close> in no case and,
  when it runs, leaves \<open>active_orders\<close> empty. In a completed \<open>on_game_event_update\<close> the
  calls of \<open>cancel_order\<close> are those of the trading decision: one for each id of
  \<open>active_orders\<close>, in order, when a trade is signalled, and none otherwise.
\<close>

theorem resets_never_cancel:
  "filter is_cancel (snd (check_risk_management s)) = []
   \<and> (snd (check_risk_management s) \<noteq> [] \<longrightarrow>
        fst (check_risk_management s) = reset_state s
        \<and> active_orders (fst (check_risk_management s)) = [])
   \<and> filter is_cancel (snd (end_of_game s et)) = []
   \<and> (et = ''END_GAME'' \<or> time_remaining s < 3 \<longrightarrow>
        fst (end_of_game s et) = reset_state s \<and> active_orders (fst (end_of_game s et)) = [])
   \<and> (on_game_event_update s ev oid = Inr (s', fx) \<longrightarrow>
        (\<exists>s1. event_pre_trade s ev = Inr s1 \<and>
           filter is_cancel fx =
             (if fst (should_trade (model_prob s1) (market_price s1))
              then map (CancelOrder TEAM_A) (active_orders s) else [])))"
proof -
  have a: "snd (check_risk_management s) \<noteq> [] \<longrightarrow>
        fst (check_risk_management s) = reset_state s
        \<and> active_orders (fst (check_risk_management s)) = []"
    using crm_fired [of s] by (auto simp: active_orders_reset)
  have b: "et = ''END_GAME'' \<or> time_remaining s < 3 \<longrightarrow>
        fst (end_of_game s et) = reset_state s \<and> active_orders (fst (end_of_game s et)) = []"
    by (auto simp: end_of_game_def active_orders_reset)
  from a b crm_no_cancel [of s] eog_no_cancel [of s et] ogeu_cancels [of s ev oid s' fx]
  show ?thesis by blast
qed

theorem resets_never_cancel_witness:
  "on_game_event_update st_winning ev_quiet 0 =
     Inr (init, [PrintTakeProfit 101050 80000, PlaceMarketOrder SELL TEAM_A 10])
   \<and> active_orders st_winning = [7, 8] \<and> active_orders init = []
   \<and> filter is_cancel [PrintTakeProfit 101050 80000, PlaceMarketOrder SELL TEAM_A 10] = []
   \<and> snd (check_risk_management (update_portfolio_value st_winning)) \<noteq> []
   \<and> active_orders (fst (check_risk_management (update_portfolio_value st_winning))) = []
   \<and> active_orders st_quoting = [7, 8]
   \<and> active_orders (fst (end_of_game st_quoting ''END_GAME'')) = []
   \<and> filter is_cancel (snd (end_of_game st_quoting ''END_GAME'')) = []"
proof -
  have fired: "snd (check_risk_management (update_portfolio_value st_winning)) \<noteq> []"
    by (simp add: crm_winning)
  from resets_never_cancel [where s = "update_portfolio_value st_winning"
      and et = "''END_GAME''" and ev = ev_quiet and oid = 0 and s' = init
      and fx = "[PrintTakeProfit 101050 80000, PlaceMarketOrder SELL TEAM_A 10]"] fired
  have risk: "active_orders (fst (check_risk_management (update_portfolio_value st_winning))) = []"
    by blast
  from resets_never_cancel [where s = st_quoting
      and et = "''END_GAME''" and ev = ev_quiet and oid = 0 and s' = init
      and fx = "[PrintTakeProfit 101050 80000, PlaceMarketOrder SELL TEAM_A 10]"]
  have game_end: "active_orders (fst (end_of_game st_quoting ''END_GAME'')) = []"
    "filter is_cancel (snd (end_of_game st_quoting ''END_GAME'')) = []"
    by blast+
  from resets_never_cancel [where s = st_winning
      and et = "''END_GAME''" and ev = ev_quiet and oid = 0 and s' = init
      and fx = "[PrintTakeProfit 101050 80000, PlaceMarketOrder SELL TEAM_A 10]"]
    winning_event
  have handler: "\<exists>s1. event_pre_trade st_winning ev_quiet = Inr s1" by blast
  have fields: "active_orders st_winning = [7, 8]" "active_orders init = []"
    "active_orders st_quoting = [7, 8]"
    by (simp_all add: st_winning_def st_quoting_def init_sel)
  from fired risk game_end handler fields winning_event show ?thesis by simp
qed

section \<open>The side of an event\<close>

lemma impact_sign:
  "get_event_impact et ha st =
     (if ha = Some ''away'' then - get_event_impact et None st else get_event_impact et None st)"
  by (simp add: get_event_impact_def Let_def)

lemma update_momentum_home:
  "home_momentum (update_momentum s ev) =
     (if home_away ev = Some ''home''
      then home_momentum s + get_event_impact (event_type ev) None (shot_type ev)
      else home_momentum s)"
  by (simp add: update_momentum_def Let_def impact_sign [of _ "Some ''home''"])

lemma update_momentum_away:
  "away_momentum (update_momentum s ev) =
     (if home_away ev = Some ''home'' then away_momentum s
      else if home_away ev = Some ''away''
      then away_momentum s - get_event_impact (event_type ev) None (shot_type ev)
      else away_momentum s + get_event_impact (event_type ev) None (shot_type ev))"
  using impact_sign [of "event_type ev" "home_away ev" "shot_type ev"]
  by (simp add: update_momentum_def Let_def)

text \<open>
  C10. \<open>get_event_impact\<close> negates the impact of the event type exactly when the side is
  the string \<open>away\<close> (the impact for a side of \<open>None\<close> is the un-negated one), and the
  handler adds the impact to \<open>home_momentum\<close> exactly when the side is the string \<open>home\<close>.
  So an event whose side is anything else (\<open>None\<close>, \<open>HOME\<close>, a typo) adds the un-negated
  impact to \<open>away_momentum\<close> and leaves \<open>home_momentum\<close> as the decay left it; this is
  what the state shows after every completed call that does not end in a reset.
\<close>

theorem unknown_side_feeds_away_momentum:
  "get_event_impact et ha st =
     (if ha = Some ''away'' then - get_event_impact et None st else get_event_impact et None st)
   \<and> home_momentum (update_momentum s ev) =
     (if home_away ev = Some ''home''
      then home_momentum s + get_event_impact (event_type ev) None (shot_type ev)
      else home_momentum s)
   \<and> away_momentum (update_momentum s ev) =
     (if home_away ev = Some ''home'' then away_momentum s
      else if home_away ev = Some ''away''
      then away_momentum s - get_event_impact (event_type ev) None (shot_type ev)
      else away_momentum s + get_event_impact (event_type ev) None (shot_type ev))
   \<and> (on_game_event_update s ev oid = Inr (s', fx) \<and> s' \<noteq> reset_state s
        \<and> home_away ev \<noteq> Some ''home'' \<and> home_away ev \<noteq> Some ''away'' \<longrightarrow>
        (\<exists>s1. decay_momentum s (time_seconds ev) = Inr s1
           \<and> home_momentum s' = home_momentum s1
           \<and> away_momentum s' =
               away_momentum s1 + get_event_impact (event_type ev) None (shot_type ev)))"
proof -
  have "\<exists>s1. decay_momentum s (time_seconds ev) = Inr s1
           \<and> home_momentum s' = home_momentum s1
           \<and> away_momentum s' =
               away_momentum s1 + get_event_impact (event_type ev) None (shot_type ev)"
    if a: "on_game_event_update s ev oid = Inr (s', fx)" and b: "s' \<noteq> reset_state s"
      and c: "home_away ev \<noteq> Some ''home''" and d: "home_away ev \<noteq> Some ''away''"
    using ogeu_momentum [OF a b] c d
    by (simp add: update_momentum_home update_momentum_away)
  with impact_sign [of et ha st] update_momentum_home [of s ev] update_momentum_away [of s ev]
  show ?thesis by blast
qed

theorem unknown_side_feeds_away_momentum_witness:
  "on_game_event_update init ev_typo 0 =
     Inr (st_typo, [PlaceLimitOrder (Some BUY) TEAM_A (4000 / 11) 55])
   \<and> st_typo \<noteq> reset_state init
   \<and> home_away ev_typo = Some ''HOME''
   \<and> get_event_impact (event_type ev_typo) None (shot_type ev_typo) = 3
   \<and> home_momentum init = 0 \<and> away_momentum init = 0
   \<and> home_momentum st_typo = 0 \<and> away_momentum st_typo = 3"
proof -
  have h: "home_away ev_typo \<noteq> Some ''home''" "home_away ev_typo \<noteq> Some ''away''"
    by (simp_all add: ev_typo_def)
  from unknown_side_feeds_away_momentum [where s = init and ev = ev_typo and oid = 0
      and s' = st_typo and fx = "[PlaceLimitOrder (Some BUY) TEAM_A (4000 / 11) 55]"]
    typo_event st_typo_not_reset h
  show ?thesis
    by (simp add: st_typo_def ev_typo_def init_sel get_event_impact_def)
qed

end
